theory Spec2Isabelle
  imports Main "HOL-Library.AList" "HOL-Library.Word"
begin

section \<open>Go values used by the webhook\<close>

text \<open>
  A Go \<open>string\<close> and a Go \<open>[]byte\<close> are both a \<^typ>\<open>string\<close> here; the nil slice is
  the empty list (every use in the source only looks at the length and the contents).
\<close>

type_synonym bytes = string

text \<open>
  A Go map with string keys. The zero value of a map type is the nil map, which is
  kept apart from an allocated map without entries: reading and \<open>delete\<close> work on
  both, an assignment to an entry of the nil map panics. The entries are an association
  list with one pair for each key; its order stands for the order in which \<open>range\<close>
  visits the map, which Go leaves open.
\<close>

datatype 'v gomap = NilMap | GoMap "(string \<times> 'v) list"

fun map_entries :: "'v gomap \<Rightarrow> (string \<times> 'v) list" where
  "map_entries NilMap = []"
| "map_entries (GoMap kvs) = kvs"

text \<open>\<open>v, ok := m[k]\<close>: the value with \<open>ok\<close>, or \<open>None\<close> for \<open>ok = false\<close>.\<close>

definition map_lookup :: "'v gomap \<Rightarrow> string \<Rightarrow> 'v option" where
  "map_lookup m k = map_of (map_entries m) k"

text \<open>\<open>m[k]\<close> as an expression: the zero value of the element type for a missing key.\<close>

definition index_string :: "string gomap \<Rightarrow> string \<Rightarrow> string" where
  "index_string m k = (case map_lookup m k of None \<Rightarrow> [] | Some v \<Rightarrow> v)"

definition index_map :: "'v gomap gomap \<Rightarrow> string \<Rightarrow> 'v gomap" where
  "index_map m k = (case map_lookup m k of None \<Rightarrow> NilMap | Some v \<Rightarrow> v)"

text \<open>\<open>delete(m, k)\<close>: no effect on the nil map or on a missing key.\<close>

fun map_delete :: "'v gomap \<Rightarrow> string \<Rightarrow> 'v gomap" where
  "map_delete NilMap k = NilMap"
| "map_delete (GoMap kvs) k = GoMap (AList.delete k kvs)"

text \<open>\<open>m[k] = v\<close>: \<open>None\<close> is the run-time panic of an assignment into the nil map.\<close>

fun map_assign :: "'v gomap \<Rightarrow> string \<Rightarrow> 'v \<Rightarrow> 'v gomap option" where
  "map_assign NilMap k v = None"
| "map_assign (GoMap kvs) k v = Some (GoMap (AList.update k v kvs))"

subsection \<open>The functions of package strings that the source calls\<close>

text \<open>\<open>strings.HasSuffix\<close> and \<open>strings.TrimSuffix\<close>, as the Go library defines them.\<close>

definition HasSuffix :: "string \<Rightarrow> string \<Rightarrow> bool" where
  "HasSuffix s suf = (length suf \<le> length s \<and> drop (length s - length suf) s = suf)"

definition TrimSuffix :: "string \<Rightarrow> string \<Rightarrow> string" where
  "TrimSuffix s suf = (if HasSuffix s suf then take (length s - length suf) s else s)"

text \<open>\<open>strings.TrimRight s cutset\<close>: all trailing characters that occur in the cutset go.\<close>

definition TrimRight :: "string \<Rightarrow> string \<Rightarrow> string" where
  "TrimRight s cutset = rev (dropWhile (\<lambda>c. c \<in> set cutset) (rev s))"

text \<open>The cutset \<open>"\r\n "\<close> of \<open>loadApiKeys\<close>: carriage return, line feed, space.\<close>

definition blanks :: string where
  "blanks = [CHR 0x0D, CHR 0x0A, CHR '' '']"

section \<open>Errors\<close>

text \<open>
  The source builds its errors with \<open>fmt.Errorf\<close>; each format string is a constructor
  here, with the values it prints. Errors that come out of a library call
  (\<open>client.Do\<close>, \<open>ioutil.ReadAll\<close>, \<open>http.NewRequest\<close>, \<open>json.Unmarshal\<close>, the secret
  lookup) are constructors without the library's text.
\<close>

datatype error =
    ConfigDecodeError                     \<comment> \<open>"error decoding solver config: %v"\<close>
  | SecretGetError string                 \<comment> \<open>"unable to get secret `%s`; %v"\<close>
  | SecretKeyMissing string string        \<comment> \<open>"key %q not found in secret \"%s/%s\""\<close>
  | DomainNotFound string                 \<comment> \<open>"domain '%s' not found in config."\<close>
  | DomainKeyError string error           \<comment> \<open>"unable to get domain key for zone %s: %v"\<close>
  | ChangeError error                     \<comment> \<open>"unable to change TXT record: %v"\<close>
  | DeleteError error                     \<comment> \<open>"unable to delete TXT record: %v"\<close>
  | NewRequestError                       \<comment> \<open>the error of http.NewRequest\<close>
  | DoError                               \<comment> \<open>the error of client.Do\<close>
  | ReadAllError                          \<comment> \<open>the error of ioutil.ReadAll\<close>
  | RateLimit                             \<comment> \<open>"Variomedia rate limit reached (HTTP code %d)"\<close>
  | CreateStatusError int                 \<comment> \<open>"failed creating TXT record: server reported status code %d"\<close>
  | DeleteFailed                          \<comment> \<open>"failed deleting TXT record: %v" (of a nil error)\<close>
  | DeletePollFailed                      \<comment> \<open>"failed creating TXT record: %v" (of a nil error)\<close>
  | UnmarshalError                        \<comment> \<open>"cannot unmarshall response to json: %v"\<close>
  | JobTimedOut string                    \<comment> \<open>"DNS update job timed out with most recent status '%s'"\<close>

section \<open>The data of the provider client\<close>

record variomediaDnsAttributes =
  RecordType :: string
  Name :: string
  Domain :: string
  Data :: string
  Ttl :: int

record variomediaData =
  RequestType :: string
  RequestAttr :: variomediaDnsAttributes

record variomediaJobData =
  Type :: string
  Id :: string
  Attributes :: "string gomap"
  Links :: "string gomap"

record variomediaResponse =
  JobData :: variomediaJobData          \<comment> \<open>field \<open>Data\<close> of the source\<close>
  TopLinks :: "string gomap"            \<comment> \<open>field \<open>Links\<close> of the source\<close>

text \<open>The zero value of \<open>var reply variomediaResponse\<close>.\<close>

definition zero_reply :: variomediaResponse where
  "zero_reply = \<lparr> JobData = \<lparr> Type = [], Id = [], Attributes = NilMap, Links = NilMap \<rparr>,
                  TopLinks = NilMap \<rparr>"

text \<open>\<open>reply.Data.Attributes["status"]\<close>, \<open>reply.Data.Links[...]\<close>.\<close>

definition job_status :: "variomediaResponse \<Rightarrow> string" where
  "job_status reply = index_string (Attributes (JobData reply)) ''status''"

definition job_link :: "variomediaResponse \<Rightarrow> string \<Rightarrow> string" where
  "job_link reply rel = index_string (Links (JobData reply)) rel"

text \<open>
  An HTTP request as the client sends it: method, URL, the three headers that
  \<open>doRequest\<close> sets, and the request document of a POST before it is marshalled.
\<close>

record request =
  Method :: string
  URL :: string
  Authorization :: string
  ContentType :: string
  Accept :: string
  Payload :: "variomediaData option"

text \<open>
  What \<open>client.Do\<close> gives back: an error, or a response with its status code and its
  body; the body is \<open>None\<close> when reading it fails.
\<close>

datatype http_result = Failed | Response int "bytes option"

section \<open>The world outside the program\<close>

text \<open>
  The collaborators that are not part of the repository, as the fields of one record:
  \<^item> \<open>parse_url\<close>: \<open>url.Parse\<close> of a non-empty string: the scheme (in lower case, as
    the parser leaves it) and the host of the URL, \<open>None\<close> for an error;
  \<^item> \<open>provider\<close>: the outcome of the n-th HTTP exchange of one client operation, for
    the request that is sent;
  \<^item> \<open>decode_reply\<close>: \<open>json.Unmarshal\<close> of a non-empty response body into a reply
    value that may already hold an earlier reply (\<open>None\<close>: an error);
  \<^item> \<open>decode_config\<close>: \<open>json.Unmarshal\<close> of the issuer's configuration into the
    configuration map: the map afterwards and whether the call failed;
  \<^item> \<open>get_secret\<close>: the secret store, by namespace and name: the \<open>Data\<close> map of the
    secret, \<open>None\<close> for an error.
\<close>

record world =
  parse_url :: "string \<Rightarrow> (string \<times> string) option"
  provider :: "nat \<Rightarrow> request \<Rightarrow> http_result"
  decode_reply :: "bytes \<Rightarrow> variomediaResponse \<Rightarrow> variomediaResponse option"
  decode_config :: "bytes \<Rightarrow> string gomap \<times> bool"
  get_secret :: "string \<Rightarrow> string \<Rightarrow> bytes gomap option"

section \<open>main.go\<close>

type_synonym customDNSProviderConfig = "string gomap"

text \<open>The fields of \<open>v1alpha1.ChallengeRequest\<close> that the solver reads.\<close>

record ChallengeRequest =
  ResolvedFQDN :: string
  ResolvedZone :: string
  Key :: string
  Config :: "bytes option"
  ResourceNamespace :: string

definition variomediaMinTtl :: int where
  "variomediaMinTtl = 300"

text \<open>
  \<open>loadConfig\<close> returns the pair of Go: the configuration and the error. A nil
  configuration gives the allocated map without entries and no error.
\<close>

definition loadConfig :: "world \<Rightarrow> bytes option \<Rightarrow> customDNSProviderConfig \<times> error option" where
  "loadConfig w cfgJSON =
     (case cfgJSON of
        None \<Rightarrow> (GoMap [], None)
      | Some raw \<Rightarrow>
          (case decode_config w raw of
             (cfg, True) \<Rightarrow> (cfg, Some ConfigDecodeError)
           | (cfg, False) \<Rightarrow> (cfg, None)))"

text \<open>
  The loop of \<open>loadApiKeys\<close> over the entries of the configuration. The assignment
  \<open>cfg[domain] = ...\<close> replaces the value of a key that the loop is visiting, so the
  map is allocated and keeps its keys. Both error exits return the nil map.
\<close>

fun loadApiKeys_loop ::
  "world \<Rightarrow> string \<Rightarrow> (string \<times> string) list \<Rightarrow> (string \<times> string) list
     \<Rightarrow> customDNSProviderConfig \<times> error option" where
  "loadApiKeys_loop w namespace [] cfg = (GoMap cfg, None)"
| "loadApiKeys_loop w namespace ((domain, secretName) # todo) cfg =
     (case get_secret w namespace secretName of
        None \<Rightarrow> (NilMap, Some (SecretGetError secretName))
      | Some secData \<Rightarrow>
          (case map_lookup secData ''api-token'' of
             None \<Rightarrow> (NilMap, Some (SecretKeyMissing secretName namespace))
           | Some secBytes \<Rightarrow>
               loadApiKeys_loop w namespace todo
                 (AList.update domain (TrimRight secBytes blanks) cfg)))"

definition loadApiKeys ::
  "world \<Rightarrow> bytes option \<Rightarrow> string \<Rightarrow> customDNSProviderConfig \<times> error option" where
  "loadApiKeys w cfgJSON namespace =
     (case loadConfig w cfgJSON of
        (cfg, Some err) \<Rightarrow> (cfg, Some err)
      | (cfg, None) \<Rightarrow>
          (case cfg of
             NilMap \<Rightarrow> (cfg, None)
           | GoMap kvs \<Rightarrow> loadApiKeys_loop w namespace kvs kvs))"

text \<open>\<open>getDomainAndEntryAndApiKey\<close> returns entry, domain, API key and error.\<close>

definition getDomainAndEntryAndApiKey ::
  "ChallengeRequest \<Rightarrow> customDNSProviderConfig \<Rightarrow> string \<times> string \<times> string \<times> error option" where
  "getDomainAndEntryAndApiKey ch cfg =
     (let entry = TrimSuffix (ResolvedFQDN ch) (ResolvedZone ch);
          entry = TrimSuffix entry ''.'';
          domain = TrimSuffix (ResolvedZone ch) ''.''
      in case map_lookup cfg domain of
           None \<Rightarrow> (entry, domain, [], Some (DomainNotFound domain))
         | Some apiKey \<Rightarrow> (entry, domain, apiKey, None))"

section \<open>The provider client\<close>

definition variomediaLiveDnsBaseUrl :: string where
  "variomediaLiveDnsBaseUrl = ''https://api.variomedia.de/dns-records''"

text \<open>
  \<open>url.Parse\<close>, as far as the client looks at its result. The empty string parses
  without an error, to the URL that has no scheme and no host; every other string is
  parsed by the world.
\<close>

definition url_Parse :: "world \<Rightarrow> string \<Rightarrow> (string \<times> string) option" where
  "url_Parse w rawURL = (if rawURL = [] then Some ([], []) else parse_url w rawURL)"

text \<open>
  \<open>http.NewRequest\<close> with one of the three methods of the source: a request without
  headers, or \<open>None\<close> for its error, which is the error of \<open>url.Parse\<close>.
\<close>

definition NewRequest :: "world \<Rightarrow> string \<Rightarrow> string \<Rightarrow> variomediaData option \<Rightarrow> request option" where
  "NewRequest w method url body =
     (case url_Parse w url of
        None \<Rightarrow> None
      | Some parsed \<Rightarrow>
          Some \<lparr> Method = method, URL = url, Authorization = [], ContentType = [],
                 Accept = [], Payload = body \<rparr>)"

text \<open>The three \<open>req.Header.Set\<close> calls of \<open>doRequest\<close>.\<close>

definition set_headers :: "string \<Rightarrow> request \<Rightarrow> request" where
  "set_headers apiKey req =
     req \<lparr> Authorization := ''token '' @ apiKey,
           ContentType := ''application/vnd.api+json'',
           Accept := ''application/vnd.variomedia.v1+json'' \<rparr>"

text \<open>
  The checks of the HTTP transport before it sends a request: the scheme of the URL
  is \<open>http\<close> or \<open>https\<close> (the client of \<open>doRequest\<close> has the default transport, with no
  other protocol registered), and the URL has a host.
\<close>

definition transport_accepts :: "world \<Rightarrow> string \<Rightarrow> bool" where
  "transport_accepts w url =
     (case url_Parse w url of
        None \<Rightarrow> False
      | Some (scheme, host) \<Rightarrow>
          if scheme = ''http'' \<or> scheme = ''https'' then host \<noteq> [] else False)"

text \<open>
  \<open>client.Do\<close>: an error for a URL that the transport refuses, which includes the
  empty URL that \<open>CleanUp\<close> passes when the cache has no entry; otherwise the
  outcome is the provider's.
\<close>

definition client_Do :: "world \<Rightarrow> nat \<Rightarrow> request \<Rightarrow> http_result" where
  "client_Do w n req =
     (if transport_accepts w (URL req) then provider w n req else Failed)"

text \<open>
  \<open>doRequest\<close> returns status code, body and error. The body is read for the status
  codes 200 and 202 only.
\<close>

definition doRequest ::
  "world \<Rightarrow> string \<Rightarrow> nat \<Rightarrow> request \<Rightarrow> bool \<Rightarrow> int \<times> bytes \<times> error option" where
  "doRequest w apiKey n req readResponseBody =
     (case client_Do w n (set_headers apiKey req) of
        Failed \<Rightarrow> (0, [], Some DoError)
      | Response code body \<Rightarrow>
          if (code = 200 \<or> code = 202) \<and> readResponseBody
          then (case body of
                  None \<Rightarrow> (0, [], Some ReadAllError)
                | Some data \<Rightarrow> (code, data, None))
          else (code, [], None))"

text \<open>
  \<open>json.Unmarshal(respData, &reply)\<close>: input without any byte is a syntax error
  ("unexpected end of JSON input") in Go; any other input is decoded by the world's
  decoder, into the value that \<open>reply\<close> holds.
\<close>

definition json_Unmarshal ::
  "world \<Rightarrow> bytes \<Rightarrow> variomediaResponse \<Rightarrow> variomediaResponse option" where
  "json_Unmarshal w respData reply =
     (if respData = [] then None else decode_reply w respData reply)"

subsection \<open>UpdateTxtRecord\<close>

text \<open>
  Every client operation also returns the requests it has sent, in order and with
  their headers; the n-th of them is answered by \<open>client_Do w n\<close>.

  The block of the loop that fetches the job status again (lines 199 to 239): the new
  reply, or the error with which the operation returns.
\<close>

definition update_poll ::
  "world \<Rightarrow> string \<Rightarrow> nat \<Rightarrow> variomediaResponse \<Rightarrow> (error + variomediaResponse) \<times> request list" where
  "update_poll w apiKey n reply =
     (case NewRequest w ''GET'' (job_link reply ''queue-job'') None of
        None \<Rightarrow> (Inl NewRequestError, [])
      | Some req \<Rightarrow>
          (case doRequest w apiKey n req True of
             (status, respData, Some err) \<Rightarrow> (Inl err, [set_headers apiKey req])
           | (status, respData, None) \<Rightarrow>
               if status = 429 then (Inl RateLimit, [set_headers apiKey req])
               else if status \<noteq> 201 \<and> status \<noteq> 200 \<and> status \<noteq> 202
               then (Inl (CreateStatusError status), [set_headers apiKey req])
               else (case json_Unmarshal w respData reply of
                       None \<Rightarrow> (Inl UnmarshalError, [set_headers apiKey req])
                     | Some reply' \<Rightarrow> (Inr reply', [set_headers apiKey req]))))"

text \<open>
  The loop \<open>for { ... }\<close> with its counter, a Go \<open>int\<close> of 64 bits that starts at 5.
  \<open>n\<close> is the number of requests sent before this iteration.
\<close>

function update_loop ::
  "world \<Rightarrow> string \<Rightarrow> nat \<Rightarrow> variomediaResponse \<Rightarrow> 64 word
     \<Rightarrow> (string \<times> error option) \<times> request list" where
  "update_loop w apiKey n reply loopcount =
     (case (if job_status reply = ''pending'' then update_poll w apiKey n reply
            else (Inr reply, [])) of
        (Inl err, sent) \<Rightarrow> (([], Some err), sent)
      | (Inr reply', sent) \<Rightarrow>
          if job_status reply' = ''done''
          then ((job_link reply' ''dns-record'', None), sent)
          else if loopcount - 1 = 0
          then (([], Some (JobTimedOut (job_status reply'))), sent)
          else (case update_loop w apiKey (n + length sent) reply' (loopcount - 1) of
                  (res, sent') \<Rightarrow> (res, sent @ sent')))"
  by pat_completeness auto
termination
  apply (relation "measure (\<lambda>(w, apiKey, n, reply, loopcount). unat (loopcount - 1))")
   apply simp
  subgoal for w apiKey n reply loopcount
    using unat_minus_one [of "loopcount - 1"] unat_gt_0 [of "loopcount - 1"] by auto
  done

declare update_loop.simps [simp del]

text \<open>
  \<open>json.Marshal\<close> of the request document cannot fail (strings and an int), so the
  POST carries the document itself.
\<close>

definition UpdateTxtRecord ::
  "world \<Rightarrow> string \<Rightarrow> string \<Rightarrow> string \<Rightarrow> string \<Rightarrow> int
     \<Rightarrow> (string \<times> error option) \<times> request list" where
  "UpdateTxtRecord w apiKey domain name val ttl =
     (let reqData = \<lparr> RequestType = ''dns-record'',
                       RequestAttr = \<lparr> RecordType = ''TXT'', Name = name, Domain = domain,
                                       Data = val, Ttl = ttl \<rparr> \<rparr>
      in case NewRequest w ''POST'' variomediaLiveDnsBaseUrl (Some reqData) of
           None \<Rightarrow> (([], Some NewRequestError), [])
         | Some req \<Rightarrow>
             (case doRequest w apiKey 0 req True of
                (status, respData, Some err) \<Rightarrow> (([], Some err), [set_headers apiKey req])
              | (status, respData, None) \<Rightarrow>
                  if status = 429 then (([], Some RateLimit), [set_headers apiKey req])
                  else if status \<noteq> 201 \<and> status \<noteq> 200 \<and> status \<noteq> 202
                  then (([], Some (CreateStatusError status)), [set_headers apiKey req])
                  else (case json_Unmarshal w respData zero_reply of
                          None \<Rightarrow> (([], Some UnmarshalError), [set_headers apiKey req])
                        | Some reply \<Rightarrow>
                            (case update_loop w apiKey 1 reply 5 of
                               (res, sent) \<Rightarrow> (res, set_headers apiKey req # sent)))))"

subsection \<open>DeleteTxtRecord\<close>

text \<open>
  The block that fetches the job status again (lines 306 to 346). Its \<open>status\<close> and
  \<open>respData\<close> are variables of the block, declared by \<open>:=\<close> in line 320; the block
  lets the status code 404 pass its check.
\<close>

definition delete_poll ::
  "world \<Rightarrow> string \<Rightarrow> nat \<Rightarrow> variomediaResponse \<Rightarrow> (error + variomediaResponse) \<times> request list" where
  "delete_poll w apiKey n reply =
     (case NewRequest w ''GET'' (job_link reply ''queue-job'') None of
        None \<Rightarrow> (Inl NewRequestError, [])
      | Some req \<Rightarrow>
          (case doRequest w apiKey n req True of
             (status, respData, Some err) \<Rightarrow> (Inl err, [set_headers apiKey req])
           | (status, respData, None) \<Rightarrow>
               if status = 429 then (Inl RateLimit, [set_headers apiKey req])
               else if status \<noteq> 201 \<and> status \<noteq> 200 \<and> status \<noteq> 202 \<and> status \<noteq> 404
               then (Inl DeletePollFailed, [set_headers apiKey req])
               else (case json_Unmarshal w respData reply of
                       None \<Rightarrow> (Inl UnmarshalError, [set_headers apiKey req])
                     | Some reply' \<Rightarrow> (Inr reply', [set_headers apiKey req]))))"

text \<open>
  The loop of \<open>DeleteTxtRecord\<close>. \<open>status\<close> is the variable of the function body, set
  by the DELETE request in line 276; the block above declares its own, so the tests of
  lines 306 and 349 read the status code of the DELETE request in every iteration.
\<close>

function delete_loop ::
  "world \<Rightarrow> string \<Rightarrow> nat \<Rightarrow> int \<Rightarrow> variomediaResponse \<Rightarrow> 64 word
     \<Rightarrow> error option \<times> request list" where
  "delete_loop w apiKey n status reply loopcount =
     (case (if job_status reply = ''pending'' \<and> status \<noteq> 404
            then delete_poll w apiKey n reply
            else (Inr reply, [])) of
        (Inl err, sent) \<Rightarrow> (Some err, sent)
      | (Inr reply', sent) \<Rightarrow>
          if status = 404 then (None, sent)
          else if job_status reply' = ''done'' then (None, sent)
          else if loopcount - 1 = 0
          then (Some (JobTimedOut (job_status reply')), sent)
          else (case delete_loop w apiKey (n + length sent) status reply' (loopcount - 1) of
                  (res, sent') \<Rightarrow> (res, sent @ sent')))"
  by pat_completeness auto
termination
  apply (relation "measure (\<lambda>(w, apiKey, n, status, reply, loopcount). unat (loopcount - 1))")
   apply simp
  subgoal for w apiKey n status reply loopcount
    using unat_minus_one [of "loopcount - 1"] unat_gt_0 [of "loopcount - 1"] by auto
  done

declare delete_loop.simps [simp del]

definition DeleteTxtRecord ::
  "world \<Rightarrow> string \<Rightarrow> string \<Rightarrow> int \<Rightarrow> error option \<times> request list" where
  "DeleteTxtRecord w apiKey url ttl =
     (case NewRequest w ''DELETE'' url None of
        None \<Rightarrow> (Some NewRequestError, [])
      | Some req \<Rightarrow>
          (case doRequest w apiKey 0 req True of
             (status, respData, Some err) \<Rightarrow> (Some err, [set_headers apiKey req])
           | (status, respData, None) \<Rightarrow>
               if status = 429 then (Some RateLimit, [set_headers apiKey req])
               else if status \<noteq> 201 \<and> status \<noteq> 200 \<and> status \<noteq> 202
               then (Some DeleteFailed, [set_headers apiKey req])
               else (case json_Unmarshal w respData zero_reply of
                       None \<Rightarrow> (Some UnmarshalError, [set_headers apiKey req])
                     | Some reply \<Rightarrow>
                         (case delete_loop w apiKey 1 status reply 5 of
                            (res, sent) \<Rightarrow> (res, set_headers apiKey req # sent)))))"

section \<open>The entry cache and the two operations of the solver\<close>

text \<open>\<open>DnsEntryURL\<close>: by client domain, by entry name, by key value.\<close>

type_synonym cache = "string gomap gomap gomap"

text \<open>\<open>DnsEntryURL[domain][entry][ch.Key]\<close> (line 188).\<close>

definition cache_url :: "cache \<Rightarrow> string \<Rightarrow> string \<Rightarrow> string \<Rightarrow> string" where
  "cache_url c domain entry key = index_string (index_map (index_map c domain) entry) key"

text \<open>
  \<open>c[domain][entry] = m\<close>: the map \<open>c[domain]\<close> is changed in place, which the model
  writes back into \<open>c\<close>. \<open>None\<close> is the panic of an assignment into a nil map.
\<close>

definition assign2 :: "'v gomap gomap \<Rightarrow> string \<Rightarrow> string \<Rightarrow> 'v \<Rightarrow> 'v gomap gomap option" where
  "assign2 c domain entry m =
     (case map_assign (index_map c domain) entry m of
        None \<Rightarrow> None
      | Some m1 \<Rightarrow> map_assign c domain m1)"

text \<open>\<open>c[domain][entry][key] = url\<close>.\<close>

definition assign3 :: "cache \<Rightarrow> string \<Rightarrow> string \<Rightarrow> string \<Rightarrow> string \<Rightarrow> cache option" where
  "assign3 c domain entry key url =
     (case map_assign (index_map (index_map c domain) entry) key url of
        None \<Rightarrow> None
      | Some m2 \<Rightarrow> assign2 c domain entry m2)"

text \<open>
  \<open>delete(DnsEntryURL[domain][entry], ch.Key)\<close> (line 197): on a nil map at any level
  nothing happens; otherwise the innermost map loses the key, in place.
\<close>

definition cache_delete :: "cache \<Rightarrow> string \<Rightarrow> string \<Rightarrow> string \<Rightarrow> cache" where
  "cache_delete c domain entry key =
     (case index_map (index_map c domain) entry of
        NilMap \<Rightarrow> c
      | GoMap kvs \<Rightarrow>
          (case assign2 c domain entry (map_delete (GoMap kvs) key) of
             None \<Rightarrow> c
           | Some c' \<Rightarrow> c'))"

text \<open>
  The three steps with which \<open>Present\<close> updates the cache (lines 149 to 155): the flag
  is false when a step panics, and the cache is the one at that moment.
\<close>

definition cache_store :: "cache \<Rightarrow> string \<Rightarrow> string \<Rightarrow> string \<Rightarrow> string \<Rightarrow> bool \<times> cache" where
  "cache_store c domain entry key url =
     (case (case map_lookup c domain of
              Some m \<Rightarrow> Some c
            | None \<Rightarrow> map_assign c domain (GoMap [])) of
        None \<Rightarrow> (False, c)
      | Some c1 \<Rightarrow>
          (case (case map_lookup (index_map c1 domain) entry of
                   Some m \<Rightarrow> Some c1
                 | None \<Rightarrow> assign2 c1 domain entry (GoMap [])) of
             None \<Rightarrow> (False, c1)
           | Some c2 \<Rightarrow>
               (case assign3 c2 domain entry key url of
                  None \<Rightarrow> (False, c2)
                | Some c3 \<Rightarrow> (True, c3))))"

text \<open>
  An operation of the solver returns an error or nil, or panics. It also gives the
  cache afterwards and the requests sent.
\<close>

datatype outcome = Returned "error option" | Panicked

definition Present :: "world \<Rightarrow> ChallengeRequest \<Rightarrow> cache \<Rightarrow> outcome \<times> cache \<times> request list" where
  "Present w ch c =
     (case loadApiKeys w (Config ch) (ResourceNamespace ch) of
        (cfg, Some err) \<Rightarrow> (Returned (Some err), c, [])
      | (cfg, None) \<Rightarrow>
          (case getDomainAndEntryAndApiKey ch cfg of
             (entry, domain, apiKey, Some err) \<Rightarrow>
               (Returned (Some (DomainKeyError (ResolvedZone ch) err)), c, [])
           | (entry, domain, apiKey, None) \<Rightarrow>
               (case UpdateTxtRecord w apiKey domain entry (Key ch) variomediaMinTtl of
                  ((url, Some err), sent) \<Rightarrow> (Returned (Some (ChangeError err)), c, sent)
                | ((url, None), sent) \<Rightarrow>
                    (case cache_store c domain entry (Key ch) url of
                       (False, c') \<Rightarrow> (Panicked, c', sent)
                     | (True, c') \<Rightarrow> (Returned None, c', sent)))))"

definition CleanUp :: "world \<Rightarrow> ChallengeRequest \<Rightarrow> cache \<Rightarrow> outcome \<times> cache \<times> request list" where
  "CleanUp w ch c =
     (case loadApiKeys w (Config ch) (ResourceNamespace ch) of
        (cfg, Some err) \<Rightarrow> (Returned (Some err), c, [])
      | (cfg, None) \<Rightarrow>
          (case getDomainAndEntryAndApiKey ch cfg of
             (entry, domain, apiKey, Some err) \<Rightarrow>
               (Returned (Some (DomainKeyError (ResolvedZone ch) err)), c, [])
           | (entry, domain, apiKey, None) \<Rightarrow>
               (case DeleteTxtRecord w apiKey (cache_url c domain entry (Key ch))
                       variomediaMinTtl of
                  (Some err, sent) \<Rightarrow> (Returned (Some (DeleteError err)), c, sent)
                | (None, sent) \<Rightarrow>
                    (Returned None, cache_delete c domain entry (Key ch), sent))))"

section \<open>Sample values\<close>

text \<open>
  A small world for the closed instances of the theorems: a URL parser for the URLs
  of the provider, a decoder that reads the
  response body as the job status and gives the job its two links, a secret store with
  the one secret of the README, a configuration decoder that gives a fixed table, and
  a challenge for the name of the specification's example. The providers answer every
  request alike, or the third request with the status code 429.
\<close>

definition sample_parse :: "string \<Rightarrow> (string \<times> string) option" where
  "sample_parse u =
     (if take 8 u = ''https://''
      then Some (''https'', takeWhile (\<lambda>c. c \<noteq> CHR ''/'') (drop 8 u))
      else None)"

definition sample_decode :: "bytes \<Rightarrow> variomediaResponse \<Rightarrow> variomediaResponse option" where
  "sample_decode body reply =
     Some \<lparr> JobData = \<lparr> Type = ''queue-job'', Id = ''1'',
                         Attributes = GoMap [(''status'', body)],
                         Links = GoMap [(''queue-job'', ''https://api.variomedia.de/queue-jobs/1''),
                                        (''dns-record'', ''https://api.variomedia.de/dns-records/1'')] \<rparr>,
            TopLinks = NilMap \<rparr>"

definition sample_secrets :: "string \<Rightarrow> string \<Rightarrow> bytes gomap option" where
  "sample_secrets namespace name =
     (if name = ''variomedia-credentials-01''
      then Some (GoMap [(''api-token'', ''yourApiKeyGoesHere'' @ [CHR 0x0A])])
      else None)"

definition sample_world ::
  "(string \<times> string) list \<Rightarrow> (nat \<Rightarrow> request \<Rightarrow> http_result) \<Rightarrow> world" where
  "sample_world conf p =
     \<lparr> parse_url = sample_parse, provider = p, decode_reply = sample_decode,
       decode_config = (\<lambda>raw. (GoMap conf, False)), get_secret = sample_secrets \<rparr>"

definition one_domain :: "(string \<times> string) list" where
  "one_domain = [(''example.com'', ''variomedia-credentials-01'')]"

definition two_domains :: "(string \<times> string) list" where
  "two_domains = [(''example.com'', ''variomedia-credentials-01''),
                  (''example.org'', ''variomedia-credentials-02'')]"

definition sample_challenge :: ChallengeRequest where
  "sample_challenge =
     \<lparr> ResolvedFQDN = ''_acme-challenge.foo.example.com.'', ResolvedZone = ''example.com.'',
       Key = ''challenge-key'', Config = Some ''{}'', ResourceNamespace = ''cert-manager'' \<rparr>"

definition always_pending :: "nat \<Rightarrow> request \<Rightarrow> http_result" where
  "always_pending n req = Response 202 (Some ''pending'')"

definition always_done :: "nat \<Rightarrow> request \<Rightarrow> http_result" where
  "always_done n req = Response 200 (Some ''done'')"

definition limited_at_2 :: "nat \<Rightarrow> request \<Rightarrow> http_result" where
  "limited_at_2 n req = (if n = 2 then Response 429 None else Response 202 (Some ''pending''))"

text \<open>A provider that answers with the status code 201, and a decoder that gives a
  pending job without links.\<close>

definition always_created :: "nat \<Rightarrow> request \<Rightarrow> http_result" where
  "always_created n req = Response 201 (Some ''pending'')"

definition decode_without_links ::
  "bytes \<Rightarrow> variomediaResponse \<Rightarrow> variomediaResponse option" where
  "decode_without_links body reply =
     Some \<lparr> JobData = \<lparr> Type = ''queue-job'', Id = ''1'',
                         Attributes = GoMap [(''status'', body)], Links = NilMap \<rparr>,
            TopLinks = NilMap \<rparr>"

definition sample_cache :: cache where
  "sample_cache = GoMap [(''example.com'', GoMap [(''_acme-challenge.foo'',
      GoMap [(''challenge-key'', ''https://api.variomedia.de/dns-records/1'')])])]"

text \<open>The definitions that a closed instance unfolds.\<close>

lemmas eval_defs = UpdateTxtRecord_def DeleteTxtRecord_def update_poll_def delete_poll_def
  NewRequest_def url_Parse_def transport_accepts_def sample_parse_def
  doRequest_def client_Do_def set_headers_def json_Unmarshal_def
  sample_world_def sample_decode_def job_status_def job_link_def index_string_def
  map_lookup_def variomediaLiveDnsBaseUrl_def zero_reply_def Let_def

lemmas solver_defs = CleanUp_def Present_def loadApiKeys_def loadConfig_def
  getDomainAndEntryAndApiKey_def TrimSuffix_def HasSuffix_def TrimRight_def blanks_def
  sample_secrets_def one_domain_def sample_challenge_def cache_url_def index_map_def
  cache_delete_def assign2_def assign3_def cache_store_def variomediaMinTtl_def

lemma sample_keys:
  "loadApiKeys (sample_world one_domain p) (Config sample_challenge)
       (ResourceNamespace sample_challenge)
     = (GoMap [(''example.com'', ''yourApiKeyGoesHere'')], None)"
  by (simp add: solver_defs eval_defs)

lemma sample_mapping:
  "getDomainAndEntryAndApiKey sample_challenge (GoMap [(''example.com'', ''yourApiKeyGoesHere'')])
     = (''_acme-challenge.foo'', ''example.com'', ''yourApiKeyGoesHere'', None)"
  by (simp add: solver_defs eval_defs)

section \<open>The challenge mapper\<close>

lemma TrimSuffix_append: "TrimSuffix (pre @ suf) suf = pre"
  by (simp add: TrimSuffix_def HasSuffix_def)

lemma TrimSuffix_dot:
  "TrimSuffix s ''.'' = (if s \<noteq> [] \<and> last s = CHR ''.'' then butlast s else s)"
proof (cases s rule: rev_cases)
  case Nil
  then show ?thesis by (simp add: TrimSuffix_def HasSuffix_def)
next
  case (snoc ys y)
  then show ?thesis by (auto simp add: TrimSuffix_def HasSuffix_def)
qed

lemma map_lookup_None_iff: "(map_lookup m k = None) = (k \<notin> fst ` set (map_entries m))"
  by (simp add: map_lookup_def map_of_eq_None_iff)

text \<open>
  Claim C7. For a zone \<open>z.\<close> and a name \<open>pre\<close> followed by the zone,
  \<open>getDomainAndEntryAndApiKey\<close> gives the domain \<open>z\<close> and the entry \<open>pre\<close> without its
  last dot; for the zone itself (\<open>pre\<close> empty) the entry is empty; the error is the
  one for a domain that is not in the configuration exactly when \<open>z\<close> is no key of the
  credential table, and there is no error exactly when it is one, and then the API key
  is the table's.
\<close>

theorem mapChallenge:
  assumes zone: "ResolvedZone ch = z @ ''.''"
      and fqdn: "ResolvedFQDN ch = pre @ ResolvedZone ch"
  shows "(case getDomainAndEntryAndApiKey ch cfg of
            (entry, domain, apiKey, err) \<Rightarrow>
               domain = z
             \<and> entry = (if pre \<noteq> [] \<and> last pre = CHR ''.'' then butlast pre else pre)
             \<and> (pre = [] \<longrightarrow> entry = [])
             \<and> (err = Some (DomainNotFound z)) = (z \<notin> fst ` set (map_entries cfg))
             \<and> (err = None) = (z \<in> fst ` set (map_entries cfg))
             \<and> (err = None \<longrightarrow> map_lookup cfg z = Some apiKey))"
proof -
  have d: "TrimSuffix (ResolvedZone ch) ''.'' = z"
    using zone TrimSuffix_append [of z "''.''"] by simp
  have e: "TrimSuffix (ResolvedFQDN ch) (ResolvedZone ch) = pre"
    using fqdn TrimSuffix_append [of pre "ResolvedZone ch"] by simp
  have val: "getDomainAndEntryAndApiKey ch cfg =
       (case map_lookup cfg z of
          None \<Rightarrow> (TrimSuffix pre ''.'', z, [], Some (DomainNotFound z))
        | Some apiKey \<Rightarrow> (TrimSuffix pre ''.'', z, apiKey, None))"
    by (simp only: getDomainAndEntryAndApiKey_def Let_def d e)
  show ?thesis
  proof (cases "map_lookup cfg z")
    case None
    then show ?thesis
      using map_lookup_None_iff [of cfg z] by (simp add: val TrimSuffix_dot)
  next
    case (Some k)
    then show ?thesis
      using map_lookup_None_iff [of cfg z] by (simp add: val TrimSuffix_dot)
  qed
qed

theorem mapChallenge_witness:
  "ResolvedZone sample_challenge = ''example.com'' @ ''.''
   \<and> ResolvedFQDN sample_challenge = ''_acme-challenge.foo.'' @ ResolvedZone sample_challenge
   \<and> getDomainAndEntryAndApiKey sample_challenge (GoMap [(''example.com'', ''yourApiKeyGoesHere'')])
       = (''_acme-challenge.foo'', ''example.com'', ''yourApiKeyGoesHere'', None)"
  using mapChallenge [of sample_challenge "''example.com''" "''_acme-challenge.foo.''"
          "GoMap [(''example.com'', ''yourApiKeyGoesHere'')]"]
  by (simp add: getDomainAndEntryAndApiKey_def sample_challenge_def map_lookup_def
        TrimSuffix_def HasSuffix_def)

section \<open>The cache accesses of CleanUp\<close>

lemma cache_url_absent:
  "map_lookup c domain = None \<or> map_lookup (index_map c domain) entry = None
     \<or> map_lookup (index_map (index_map c domain) entry) key = None
   \<Longrightarrow> cache_url c domain entry key = []"
  by (auto simp add: cache_url_def index_string_def index_map_def map_lookup_def)

lemma cache_delete_absent:
  "map_lookup c domain = None \<or> map_lookup (index_map c domain) entry = None
   \<Longrightarrow> cache_delete c domain entry key = c"
  by (auto simp add: cache_delete_def index_map_def map_lookup_def)

lemma CleanUp_returns: "fst (CleanUp w ch c) \<noteq> Panicked"
  by (simp add: CleanUp_def split: prod.splits option.splits)

text \<open>
  Claim C9. Reading the record URL through the three levels of the cache gives the
  empty string when the domain, the host label or the key is missing, also in the nil
  cache; removing the entry changes nothing when the map of the domain or of the host
  label is missing; and \<open>CleanUp\<close> returns for every world, challenge and cache: no
  step of it panics.
\<close>

theorem cache_total:
  "(map_lookup c domain = None \<or> map_lookup (index_map c domain) entry = None
      \<or> map_lookup (index_map (index_map c domain) entry) key = None
    \<longrightarrow> cache_url c domain entry key = [])
   \<and> (map_lookup c domain = None \<or> map_lookup (index_map c domain) entry = None
    \<longrightarrow> cache_delete c domain entry key = c)
   \<and> fst (CleanUp w ch c) \<noteq> Panicked"
  using cache_url_absent [of c domain entry key] cache_delete_absent [of c domain entry key]
    CleanUp_returns [of w ch c]
  by blast

theorem cache_total_witness:
  "map_lookup (NilMap :: cache) ''example.com'' = None
   \<and> cache_url NilMap ''example.com'' ''_acme-challenge.foo'' ''challenge-key'' = []
   \<and> cache_delete NilMap ''example.com'' ''_acme-challenge.foo'' ''challenge-key'' = NilMap"
  using cache_total [of NilMap "''example.com''" "''_acme-challenge.foo''" "''challenge-key''"]
  by (simp add: map_lookup_def)

section \<open>A missing configuration\<close>

text \<open>
  Claim C10. Without a configuration (the nil pointer) \<open>loadConfig\<close> gives the
  allocated map without entries and no error, and so does \<open>loadApiKeys\<close>; \<open>Present\<close>
  and \<open>CleanUp\<close> then return the error of the challenge mapper for the domain of the
  zone, wrapped with the zone, leave the cache as it is and send no request.
\<close>

theorem nil_config:
  "loadConfig w None = (GoMap [], None)
   \<and> loadApiKeys w None namespace = (GoMap [], None)
   \<and> Present w (ch\<lparr>Config := None\<rparr>) c =
       (Returned (Some (DomainKeyError (ResolvedZone ch)
                    (DomainNotFound (TrimSuffix (ResolvedZone ch) ''.'')))), c, [])
   \<and> CleanUp w (ch\<lparr>Config := None\<rparr>) c =
       (Returned (Some (DomainKeyError (ResolvedZone ch)
                    (DomainNotFound (TrimSuffix (ResolvedZone ch) ''.'')))), c, [])"
  by (simp add: loadConfig_def loadApiKeys_def Present_def CleanUp_def
        getDomainAndEntryAndApiKey_def map_lookup_def Let_def)

section \<open>Credential resolution\<close>

lemma loadApiKeys_loop_fails:
  assumes "(domain, secretName) \<in> set todo"
      and "case get_secret w namespace secretName of
             None \<Rightarrow> True
           | Some secData \<Rightarrow> map_lookup secData ''api-token'' = None"
  shows "\<exists>s \<in> snd ` set todo.
           loadApiKeys_loop w namespace todo cfg = (NilMap, Some (SecretGetError s))
         \<or> loadApiKeys_loop w namespace todo cfg = (NilMap, Some (SecretKeyMissing s namespace))"
  using assms
proof (induction todo arbitrary: cfg)
  case Nil
  then show ?case by simp
next
  case (Cons p todo)
  obtain d s where p: "p = (d, s)" by (cases p)
  show ?case
  proof (cases "get_secret w namespace s")
    case None
    then show ?thesis using p by auto
  next
    case (Some secData)
    note sec = this
    show ?thesis
    proof (cases "map_lookup secData ''api-token''")
      case None
      then show ?thesis using p sec by auto
    next
      case (Some secBytes)
      with sec Cons.prems p have "(domain, secretName) \<in> set todo" by auto
      from Cons.IH [OF this Cons.prems(2)] show ?thesis using p sec Some by auto
    qed
  qed
qed

text \<open>
  Claim C6, as the source has it. When the configuration decodes and the secret of one
  of its domains cannot be fetched or lacks the field \<open>api-token\<close>, \<open>loadApiKeys\<close>
  fails as a whole: it returns the error for one of the configured secrets, and the
  map it returns with the error is the nil map.
\<close>

theorem loadApiKeys_failure:
  assumes "loadConfig w cfgJSON = (GoMap kvs, None)"
      and "(domain, secretName) \<in> set kvs"
      and "case get_secret w namespace secretName of
             None \<Rightarrow> True
           | Some secData \<Rightarrow> map_lookup secData ''api-token'' = None"
  shows "\<exists>s \<in> snd ` set kvs.
           loadApiKeys w cfgJSON namespace = (NilMap, Some (SecretGetError s))
         \<or> loadApiKeys w cfgJSON namespace = (NilMap, Some (SecretKeyMissing s namespace))"
  using loadApiKeys_loop_fails [OF assms(2) assms(3), of kvs] assms(1)
  by (simp add: loadApiKeys_def)

theorem loadApiKeys_failure_witness:
  "loadConfig (sample_world two_domains (\<lambda>n req. Failed)) (Some ''{}'') = (GoMap two_domains, None)
   \<and> (''example.org'', ''variomedia-credentials-02'') \<in> set two_domains
   \<and> get_secret (sample_world two_domains (\<lambda>n req. Failed)) ''cert-manager''
        ''variomedia-credentials-02'' = None
   \<and> (\<exists>s \<in> snd ` set two_domains.
         loadApiKeys (sample_world two_domains (\<lambda>n req. Failed)) (Some ''{}'') ''cert-manager''
           = (NilMap, Some (SecretGetError s))
       \<or> loadApiKeys (sample_world two_domains (\<lambda>n req. Failed)) (Some ''{}'') ''cert-manager''
           = (NilMap, Some (SecretKeyMissing s ''cert-manager'')))"
  using loadApiKeys_failure [of "sample_world two_domains (\<lambda>n req. Failed)" "Some ''{}''"
          two_domains "''example.org''" "''variomedia-credentials-02''" "''cert-manager''"]
  by (simp add: loadConfig_def sample_world_def sample_secrets_def two_domains_def)

text \<open>
  The claim as the specification words it fails: with two configured domains, of which
  the first secret resolves and the second is missing, the map built when the error is
  met holds the key of the first domain, and the map returned with the error is nil.
\<close>

theorem loadApiKeys_map_counterexample:
  "loadApiKeys_loop (sample_world two_domains (\<lambda>n req. Failed)) ''cert-manager''
       [(''example.com'', ''variomedia-credentials-01'')] two_domains
     = (GoMap [(''example.com'', ''yourApiKeyGoesHere''),
               (''example.org'', ''variomedia-credentials-02'')], None)
   \<and> loadApiKeys (sample_world two_domains (\<lambda>n req. Failed)) (Some ''{}'') ''cert-manager''
     = (NilMap, Some (SecretGetError ''variomedia-credentials-02''))"
  by (simp add: loadApiKeys_def loadConfig_def sample_world_def sample_secrets_def
        two_domains_def map_lookup_def TrimRight_def blanks_def)

section \<open>Rate limiting\<close>

lemma doRequest_429:
  "client_Do w n (set_headers apiKey req) = Response 429 b
   \<Longrightarrow> doRequest w apiKey n req True = (429, [], None)"
  by (simp add: doRequest_def)

lemma update_poll_sent:
  "update_poll w apiKey n reply = (x, s) \<Longrightarrow>
     s = [] \<or> (\<exists>req. s = [set_headers apiKey req] \<and> Method req = ''GET''
                 \<and> NewRequest w ''GET'' (job_link reply ''queue-job'') None = Some req)"
  by (auto simp add: update_poll_def NewRequest_def split: option.splits prod.splits if_splits)

lemma update_poll_429:
  assumes "update_poll w apiKey n reply = (x, s)" and "i < length s"
      and "client_Do w (n + i) (s ! i) = Response 429 b"
  shows "x = Inl RateLimit \<and> length s = 1"
proof -
  from update_poll_sent [OF assms(1)] assms(2)
  obtain req where s: "s = [set_headers apiKey req]"
    and nr: "NewRequest w ''GET'' (job_link reply ''queue-job'') None = Some req" by auto
  with assms have "client_Do w n (set_headers apiKey req) = Response 429 b" by simp
  from doRequest_429 [OF this] assms(1) nr s show ?thesis
    by (simp add: update_poll_def)
qed

lemma update_loop_step:
  assumes "(if job_status reply = ''pending'' then update_poll w apiKey n reply
            else (Inr reply, [])) = (x, s1)"
  shows "update_loop w apiKey n reply lc =
     (case x of
        Inl err \<Rightarrow> (([], Some err), s1)
      | Inr reply' \<Rightarrow>
          if job_status reply' = ''done''
          then ((job_link reply' ''dns-record'', None), s1)
          else if lc - 1 = 0
          then (([], Some (JobTimedOut (job_status reply'))), s1)
          else (case update_loop w apiKey (n + length s1) reply' (lc - 1) of
                  (res, sent') \<Rightarrow> (res, s1 @ sent')))"
  by (subst update_loop.simps) (simp add: assms)

lemma countdown: "(lc :: 64 word) - 1 \<noteq> 0 \<Longrightarrow> unat (lc - 1) = Suc k \<Longrightarrow> unat (lc - 1 - 1) = k"
  using unat_minus_one [of "lc - 1"] by auto

lemma update_loop_429:
  "unat (lc - 1) = k \<Longrightarrow> update_loop w apiKey n reply lc = (res, sent) \<Longrightarrow> i < length sent
   \<Longrightarrow> client_Do w (n + i) (sent ! i) = Response 429 b
   \<Longrightarrow> res = ([], Some RateLimit) \<and> Suc i = length sent"
proof (induction k arbitrary: lc n reply res sent i)
  case 0
  then have z: "lc - 1 = 0" by (simp add: unat_eq_0)
  obtain x s1 where p: "(if job_status reply = ''pending'' then update_poll w apiKey n reply
            else (Inr reply, [])) = (x, s1)" by (cases "(if job_status reply = ''pending'' then update_poll w apiKey n reply
            else (Inr reply, []))")
  have sent: "sent = s1" using "0.prems"(2) z unfolding update_loop_step [OF p]
    by (auto split: sum.splits if_splits)
  with "0.prems"(3) have ne: "s1 \<noteq> []" by auto
  with p have pp: "update_poll w apiKey n reply = (x, s1)" by (auto split: if_splits)
  from update_poll_429 [OF pp] "0.prems"(3,4) sent have "x = Inl RateLimit \<and> length s1 = 1" by simp
  then show ?case using "0.prems"(2,3) sent unfolding update_loop_step [OF p] by auto
next
  case (Suc k)
  then have nz: "lc - 1 \<noteq> 0" by auto
  obtain x s1 where p: "(if job_status reply = ''pending'' then update_poll w apiKey n reply
            else (Inr reply, [])) = (x, s1)" by (cases "(if job_status reply = ''pending'' then update_poll w apiKey n reply
            else (Inr reply, []))")
  show ?case
  proof (cases "i < length s1")
    case True
    then have ne: "s1 \<noteq> []" by auto
    with p have pp: "update_poll w apiKey n reply = (x, s1)" by (auto split: if_splits)
    have "sent ! i = s1 ! i" using Suc.prems(2) True unfolding update_loop_step [OF p]
      by (auto split: sum.splits if_splits prod.splits simp: nth_append)
    with update_poll_429 [OF pp True] Suc.prems(4) have "x = Inl RateLimit \<and> length s1 = 1" by simp
    then show ?thesis using Suc.prems(2) True unfolding update_loop_step [OF p] by auto
  next
    case False
    with Suc.prems(3) have longer: "length s1 < length sent" by simp
    have eq: "update_loop w apiKey n reply lc = (res, sent)" by (rule Suc.prems(2))
    obtain reply' where x: "x = Inr reply'" and nd: "job_status reply' \<noteq> ''done''"
    proof (cases x)
      case (Inl err)
      with eq longer show ?thesis unfolding update_loop_step [OF p] by simp
    next
      case (Inr r)
      with eq longer nz that show ?thesis unfolding update_loop_step [OF p]
        by (cases "job_status r = ''done''") simp_all
    qed
    obtain sent' where
      rec: "update_loop w apiKey (n + length s1) reply' (lc - 1) = (res, sent')" and
      sent: "sent = s1 @ sent'"
      using eq x nd nz unfolding update_loop_step [OF p]
      by (cases "update_loop w apiKey (n + length s1) reply' (lc - 1)") simp
    have i': "i - length s1 < length sent'" using Suc.prems(3) False sent by auto
    have "client_Do w (n + length s1 + (i - length s1)) (sent' ! (i - length s1)) = Response 429 b"
      using Suc.prems(4) False sent by (simp add: nth_append)
    from Suc.IH [OF countdown [OF nz Suc.prems(1)] rec i' this]
    show ?thesis using sent False by auto
  qed
qed

lemma UpdateTxtRecord_sent:
  "UpdateTxtRecord w apiKey domain name val ttl = (res, sent) \<Longrightarrow>
     sent = [] \<or>
     (\<exists>req. URL req = variomediaLiveDnsBaseUrl \<and> Method req = ''POST'' \<and>
        (sent = [set_headers apiKey req]
           \<and> (\<forall>b. client_Do w 0 (set_headers apiKey req) = Response 429 b
                    \<longrightarrow> res = ([], Some RateLimit))
         \<or> (\<exists>reply sent'. update_loop w apiKey 1 reply 5 = (res, sent')
               \<and> sent = set_headers apiKey req # sent'
               \<and> (\<forall>b. client_Do w 0 (set_headers apiKey req) \<noteq> Response 429 b))))"
proof (cases "url_Parse w variomediaLiveDnsBaseUrl")
  case None
  assume "UpdateTxtRecord w apiKey domain name val ttl = (res, sent)"
  with None have "sent = []"
    by (auto simp add: UpdateTxtRecord_def Let_def NewRequest_def)
  then show ?thesis by simp
next
  case (Some parsed)
  note True = this
  assume run: "UpdateTxtRecord w apiKey domain name val ttl = (res, sent)"
  let ?req = "\<lparr> Method = ''POST'', URL = variomediaLiveDnsBaseUrl, Authorization = [],
                 ContentType = [], Accept = [],
                 Payload = Some \<lparr> RequestType = ''dns-record'',
                   RequestAttr = \<lparr> RecordType = ''TXT'', Name = name, Domain = domain,
                                   Data = val, Ttl = ttl \<rparr> \<rparr> \<rparr>"
  have "sent = [set_headers apiKey ?req]
           \<and> (\<forall>b. client_Do w 0 (set_headers apiKey ?req) = Response 429 b
                    \<longrightarrow> res = ([], Some RateLimit))
         \<or> (\<exists>reply sent'. update_loop w apiKey 1 reply 5 = (res, sent')
               \<and> sent = set_headers apiKey ?req # sent'
               \<and> (\<forall>b. client_Do w 0 (set_headers apiKey ?req) \<noteq> Response 429 b))"
    using run True
    by (auto simp add: UpdateTxtRecord_def Let_def NewRequest_def doRequest_def
        split: option.splits prod.splits if_splits http_result.splits)
  then have "\<exists>req. URL req = variomediaLiveDnsBaseUrl \<and> Method req = ''POST'' \<and>
        (sent = [set_headers apiKey req]
           \<and> (\<forall>b. client_Do w 0 (set_headers apiKey req) = Response 429 b
                    \<longrightarrow> res = ([], Some RateLimit))
         \<or> (\<exists>reply sent'. update_loop w apiKey 1 reply 5 = (res, sent')
               \<and> sent = set_headers apiKey req # sent'
               \<and> (\<forall>b. client_Do w 0 (set_headers apiKey req) \<noteq> Response 429 b)))"
    by (intro exI [of _ ?req]) simp
  then show ?thesis by (rule disjI2)
qed

lemma UpdateTxtRecord_429:
  assumes run: "UpdateTxtRecord w apiKey domain name val ttl = (res, sent)"
      and i: "i < length sent"
      and lim: "client_Do w i (sent ! i) = Response 429 b"
  shows "res = ([], Some RateLimit) \<and> Suc i = length sent"
proof -
  from UpdateTxtRecord_sent [OF run] i obtain req where
    alt: "(sent = [set_headers apiKey req]
           \<and> (\<forall>b. client_Do w 0 (set_headers apiKey req) = Response 429 b
                    \<longrightarrow> res = ([], Some RateLimit)))
         \<or> (\<exists>reply sent'. update_loop w apiKey 1 reply 5 = (res, sent')
               \<and> sent = set_headers apiKey req # sent'
               \<and> (\<forall>b. client_Do w 0 (set_headers apiKey req) \<noteq> Response 429 b))"
    by auto
  then show ?thesis
  proof
    assume a: "sent = [set_headers apiKey req]
           \<and> (\<forall>b. client_Do w 0 (set_headers apiKey req) = Response 429 b
                    \<longrightarrow> res = ([], Some RateLimit))"
    with i have "i = 0" by simp
    with a lim show ?thesis by simp
  next
    assume "\<exists>reply sent'. update_loop w apiKey 1 reply 5 = (res, sent')
               \<and> sent = set_headers apiKey req # sent'
               \<and> (\<forall>b. client_Do w 0 (set_headers apiKey req) \<noteq> Response 429 b)"
    then obtain reply sent' where
      loop: "update_loop w apiKey 1 reply 5 = (res, sent')" and
      sent: "sent = set_headers apiKey req # sent'" and
      first: "\<forall>b. client_Do w 0 (set_headers apiKey req) \<noteq> Response 429 b" by blast
    from first lim sent obtain j where j: "i = Suc j" by (cases i) auto
    with i sent have j': "j < length sent'" by simp
    from lim j sent have "client_Do w (1 + j) (sent' ! j) = Response 429 b" by simp
    from update_loop_429 [OF refl loop j' this] show ?thesis using sent j by simp
  qed
qed

lemma delete_poll_sent:
  "delete_poll w apiKey n reply = (x, s) \<Longrightarrow>
     s = [] \<or> (\<exists>req. s = [set_headers apiKey req] \<and> Method req = ''GET''
                 \<and> NewRequest w ''GET'' (job_link reply ''queue-job'') None = Some req)"
  by (auto simp add: delete_poll_def NewRequest_def split: option.splits prod.splits if_splits)

lemma delete_poll_429:
  assumes "delete_poll w apiKey n reply = (x, s)" and "i < length s"
      and "client_Do w (n + i) (s ! i) = Response 429 b"
  shows "x = Inl RateLimit \<and> length s = 1"
proof -
  from delete_poll_sent [OF assms(1)] assms(2)
  obtain req where s: "s = [set_headers apiKey req]"
    and nr: "NewRequest w ''GET'' (job_link reply ''queue-job'') None = Some req" by auto
  with assms have "client_Do w n (set_headers apiKey req) = Response 429 b" by simp
  from doRequest_429 [OF this] assms(1) nr s show ?thesis
    by (simp add: delete_poll_def)
qed

lemma delete_loop_step:
  assumes "(if job_status reply = ''pending'' \<and> status \<noteq> 404
            then delete_poll w apiKey n reply else (Inr reply, [])) = (x, s1)"
  shows "delete_loop w apiKey n status reply lc =
     (case x of
        Inl err \<Rightarrow> (Some err, s1)
      | Inr reply' \<Rightarrow>
          if status = 404 then (None, s1)
          else if job_status reply' = ''done'' then (None, s1)
          else if lc - 1 = 0
          then (Some (JobTimedOut (job_status reply')), s1)
          else (case delete_loop w apiKey (n + length s1) status reply' (lc - 1) of
                  (res, sent') \<Rightarrow> (res, s1 @ sent')))"
  by (subst delete_loop.simps) (simp add: assms)

lemma delete_loop_429:
  "unat (lc - 1) = k \<Longrightarrow> delete_loop w apiKey n status reply lc = (res, sent) \<Longrightarrow> i < length sent
   \<Longrightarrow> client_Do w (n + i) (sent ! i) = Response 429 b
   \<Longrightarrow> res = Some RateLimit \<and> Suc i = length sent"
proof (induction k arbitrary: lc n reply res sent i)
  case 0
  then have z: "lc - 1 = 0" by (simp add: unat_eq_0)
  obtain x s1 where p: "(if job_status reply = ''pending'' \<and> status \<noteq> 404
            then delete_poll w apiKey n reply else (Inr reply, [])) = (x, s1)"
    by (cases "(if job_status reply = ''pending'' \<and> status \<noteq> 404
            then delete_poll w apiKey n reply else (Inr reply, []))")
  have sent: "sent = s1" using "0.prems"(2) z unfolding delete_loop_step [OF p]
    by (auto split: sum.splits if_splits)
  with "0.prems"(3) have ne: "s1 \<noteq> []" by auto
  with p have pp: "delete_poll w apiKey n reply = (x, s1)" by (auto split: if_splits)
  from delete_poll_429 [OF pp] "0.prems"(3,4) sent have "x = Inl RateLimit \<and> length s1 = 1" by simp
  then show ?case using "0.prems"(2,3) sent unfolding delete_loop_step [OF p] by auto
next
  case (Suc k)
  then have nz: "lc - 1 \<noteq> 0" by auto
  obtain x s1 where p: "(if job_status reply = ''pending'' \<and> status \<noteq> 404
            then delete_poll w apiKey n reply else (Inr reply, [])) = (x, s1)"
    by (cases "(if job_status reply = ''pending'' \<and> status \<noteq> 404
            then delete_poll w apiKey n reply else (Inr reply, []))")
  have eq: "delete_loop w apiKey n status reply lc = (res, sent)" by (rule Suc.prems(2))
  show ?case
  proof (cases "i < length s1")
    case True
    then have ne: "s1 \<noteq> []" by auto
    with p have pp: "delete_poll w apiKey n reply = (x, s1)" by (auto split: if_splits)
    have "sent ! i = s1 ! i" using eq True unfolding delete_loop_step [OF p]
      by (auto split: sum.splits if_splits prod.splits simp: nth_append)
    with delete_poll_429 [OF pp True] Suc.prems(4) have "x = Inl RateLimit \<and> length s1 = 1" by simp
    then show ?thesis using eq True unfolding delete_loop_step [OF p] by auto
  next
    case False
    with Suc.prems(3) have longer: "length s1 < length sent" by simp
    obtain reply' where x: "x = Inr reply'" and nd: "job_status reply' \<noteq> ''done''"
      and nf: "status \<noteq> 404"
    proof (cases x)
      case (Inl err)
      with eq longer show ?thesis unfolding delete_loop_step [OF p] by simp
    next
      case (Inr r)
      with eq longer nz that show ?thesis unfolding delete_loop_step [OF p]
        by (cases "status = 404"; cases "job_status r = ''done''") simp_all
    qed
    obtain sent' where
      rec: "delete_loop w apiKey (n + length s1) status reply' (lc - 1) = (res, sent')" and
      sent: "sent = s1 @ sent'"
      using eq x nd nf nz unfolding delete_loop_step [OF p]
      by (cases "delete_loop w apiKey (n + length s1) status reply' (lc - 1)") simp
    have i': "i - length s1 < length sent'" using Suc.prems(3) False sent by auto
    have "client_Do w (n + length s1 + (i - length s1)) (sent' ! (i - length s1)) = Response 429 b"
      using Suc.prems(4) False sent by (simp add: nth_append)
    from Suc.IH [OF countdown [OF nz Suc.prems(1)] rec i' this]
    show ?thesis using sent False by auto
  qed
qed

lemma DeleteTxtRecord_sent:
  assumes run: "DeleteTxtRecord w apiKey url ttl = (res, sent)"
  shows "sent = [] \<or>
     (\<exists>req. URL req = url \<and> Method req = ''DELETE'' \<and>
        (sent = [set_headers apiKey req]
           \<and> (\<forall>b. client_Do w 0 (set_headers apiKey req) = Response 429 b
                    \<longrightarrow> res = Some RateLimit)
         \<or> (\<exists>status reply sent'. delete_loop w apiKey 1 status reply 5 = (res, sent')
               \<and> sent = set_headers apiKey req # sent'
               \<and> (\<forall>b. client_Do w 0 (set_headers apiKey req) \<noteq> Response 429 b))))"
proof (cases "url_Parse w url")
  case None
  with run have "sent = []"
    by (auto simp add: DeleteTxtRecord_def NewRequest_def)
  then show ?thesis by simp
next
  case (Some parsed)
  note True = this
  let ?req = "\<lparr> Method = ''DELETE'', URL = url, Authorization = [],
                 ContentType = [], Accept = [], Payload = None \<rparr>"
  have "sent = [set_headers apiKey ?req]
           \<and> (\<forall>b. client_Do w 0 (set_headers apiKey ?req) = Response 429 b
                    \<longrightarrow> res = Some RateLimit)
         \<or> (\<exists>status reply sent'. delete_loop w apiKey 1 status reply 5 = (res, sent')
               \<and> sent = set_headers apiKey ?req # sent'
               \<and> (\<forall>b. client_Do w 0 (set_headers apiKey ?req) \<noteq> Response 429 b))"
    using run True
    by (auto simp add: DeleteTxtRecord_def NewRequest_def doRequest_def
        split: option.splits prod.splits if_splits http_result.splits)
  then have "\<exists>req. URL req = url \<and> Method req = ''DELETE'' \<and>
        (sent = [set_headers apiKey req]
           \<and> (\<forall>b. client_Do w 0 (set_headers apiKey req) = Response 429 b
                    \<longrightarrow> res = Some RateLimit)
         \<or> (\<exists>status reply sent'. delete_loop w apiKey 1 status reply 5 = (res, sent')
               \<and> sent = set_headers apiKey req # sent'
               \<and> (\<forall>b. client_Do w 0 (set_headers apiKey req) \<noteq> Response 429 b)))"
    by (intro exI [of _ ?req]) simp
  then show ?thesis by (rule disjI2)
qed

lemma DeleteTxtRecord_429:
  assumes run: "DeleteTxtRecord w apiKey url ttl = (res, sent)"
      and i: "i < length sent"
      and lim: "client_Do w i (sent ! i) = Response 429 b"
  shows "res = Some RateLimit \<and> Suc i = length sent"
proof -
  from DeleteTxtRecord_sent [OF run] i obtain req where
    alt: "(sent = [set_headers apiKey req]
           \<and> (\<forall>b. client_Do w 0 (set_headers apiKey req) = Response 429 b
                    \<longrightarrow> res = Some RateLimit))
         \<or> (\<exists>status reply sent'. delete_loop w apiKey 1 status reply 5 = (res, sent')
               \<and> sent = set_headers apiKey req # sent'
               \<and> (\<forall>b. client_Do w 0 (set_headers apiKey req) \<noteq> Response 429 b))"
    by auto
  then show ?thesis
  proof
    assume a: "sent = [set_headers apiKey req]
           \<and> (\<forall>b. client_Do w 0 (set_headers apiKey req) = Response 429 b
                    \<longrightarrow> res = Some RateLimit)"
    with i have "i = 0" by simp
    with a lim show ?thesis by simp
  next
    assume "\<exists>status reply sent'. delete_loop w apiKey 1 status reply 5 = (res, sent')
               \<and> sent = set_headers apiKey req # sent'
               \<and> (\<forall>b. client_Do w 0 (set_headers apiKey req) \<noteq> Response 429 b)"
    then obtain status reply sent' where
      loop: "delete_loop w apiKey 1 status reply 5 = (res, sent')" and
      sent: "sent = set_headers apiKey req # sent'" and
      first: "\<forall>b. client_Do w 0 (set_headers apiKey req) \<noteq> Response 429 b" by blast
    from first lim sent obtain j where j: "i = Suc j" by (cases i) auto
    with i sent have j': "j < length sent'" by simp
    from lim j sent have "client_Do w (1 + j) (sent' ! j) = Response 429 b" by simp
    from delete_loop_429 [OF refl loop j' this] show ?thesis using sent j by simp
  qed
qed

text \<open>
  Claim C5. In \<open>UpdateTxtRecord\<close> and in \<open>DeleteTxtRecord\<close>, when the exchange for any
  of the requests sent (the first request or a later fetch of the job status) is answered
  with the status code 429, the operation returns the rate limit error and that request
  is the last one it has sent: nothing is fetched or tried again.
\<close>

theorem rate_limit_ends:
  "(i < length (snd (UpdateTxtRecord w apiKey domain name val ttl))
      \<and> client_Do w i (snd (UpdateTxtRecord w apiKey domain name val ttl) ! i) = Response 429 b
    \<longrightarrow> fst (UpdateTxtRecord w apiKey domain name val ttl) = ([], Some RateLimit)
      \<and> Suc i = length (snd (UpdateTxtRecord w apiKey domain name val ttl)))
   \<and> (j < length (snd (DeleteTxtRecord w apiKey url ttl))
      \<and> client_Do w j (snd (DeleteTxtRecord w apiKey url ttl) ! j) = Response 429 b'
    \<longrightarrow> fst (DeleteTxtRecord w apiKey url ttl) = Some RateLimit
      \<and> Suc j = length (snd (DeleteTxtRecord w apiKey url ttl)))"
  using UpdateTxtRecord_429 [of w apiKey domain name val ttl
          "fst (UpdateTxtRecord w apiKey domain name val ttl)"
          "snd (UpdateTxtRecord w apiKey domain name val ttl)" i b]
        DeleteTxtRecord_429 [of w apiKey url ttl
          "fst (DeleteTxtRecord w apiKey url ttl)"
          "snd (DeleteTxtRecord w apiKey url ttl)" j b']
  by simp

theorem rate_limit_ends_witness:
  "2 < length (snd (UpdateTxtRecord (sample_world one_domain limited_at_2) ''yourApiKeyGoesHere''
                 ''example.com'' ''_acme-challenge.foo'' ''challenge-key'' 300))
   \<and> client_Do (sample_world one_domain limited_at_2) 2
        (snd (UpdateTxtRecord (sample_world one_domain limited_at_2) ''yourApiKeyGoesHere''
                 ''example.com'' ''_acme-challenge.foo'' ''challenge-key'' 300) ! 2) = Response 429 None
   \<and> fst (UpdateTxtRecord (sample_world one_domain limited_at_2) ''yourApiKeyGoesHere''
                 ''example.com'' ''_acme-challenge.foo'' ''challenge-key'' 300) = ([], Some RateLimit)
   \<and> length (snd (UpdateTxtRecord (sample_world one_domain limited_at_2) ''yourApiKeyGoesHere''
                 ''example.com'' ''_acme-challenge.foo'' ''challenge-key'' 300)) = 3
   \<and> 2 < length (snd (DeleteTxtRecord (sample_world one_domain limited_at_2) ''yourApiKeyGoesHere''
                 ''https://api.variomedia.de/dns-records/1'' 300))
   \<and> client_Do (sample_world one_domain limited_at_2) 2
        (snd (DeleteTxtRecord (sample_world one_domain limited_at_2) ''yourApiKeyGoesHere''
                 ''https://api.variomedia.de/dns-records/1'' 300) ! 2) = Response 429 None
   \<and> fst (DeleteTxtRecord (sample_world one_domain limited_at_2) ''yourApiKeyGoesHere''
                 ''https://api.variomedia.de/dns-records/1'' 300) = Some RateLimit
   \<and> length (snd (DeleteTxtRecord (sample_world one_domain limited_at_2) ''yourApiKeyGoesHere''
                 ''https://api.variomedia.de/dns-records/1'' 300)) = 3"
  using rate_limit_ends [of 2 "sample_world one_domain limited_at_2" "''yourApiKeyGoesHere''"
          "''example.com''" "''_acme-challenge.foo''" "''challenge-key''" 300 None 2
          "''https://api.variomedia.de/dns-records/1''" None]
  by (simp add: eval_defs update_loop.simps delete_loop.simps limited_at_2_def)

section \<open>The bound of the poll loop\<close>

lemma Method_set_headers: "Method (set_headers apiKey req) = Method req"
  by (simp add: set_headers_def)

lemma update_loop_bound:
  "unat (lc - 1) = k \<Longrightarrow>
     length (snd (update_loop w apiKey n reply lc)) \<le> Suc k
     \<and> (\<forall>r \<in> set (snd (update_loop w apiKey n reply lc)). Method r = ''GET'')"
proof (induction k arbitrary: lc n reply)
  case 0
  then have z: "lc - 1 = 0" by (simp add: unat_eq_0)
  obtain x s1 where p: "(if job_status reply = ''pending'' then update_poll w apiKey n reply
            else (Inr reply, [])) = (x, s1)"
    by (cases "(if job_status reply = ''pending'' then update_poll w apiKey n reply
            else (Inr reply, []))")
  have s1: "length s1 \<le> 1 \<and> (\<forall>r \<in> set s1. Method r = ''GET'')"
    using p update_poll_sent [of w apiKey n reply x s1]
    by (auto simp add: Method_set_headers split: if_splits)
  have "snd (update_loop w apiKey n reply lc) = s1"
    unfolding update_loop_step [OF p] using z by (simp split: sum.splits)
  with s1 show ?case by simp
next
  case (Suc k)
  then have nz: "lc - 1 \<noteq> 0" by auto
  obtain x s1 where p: "(if job_status reply = ''pending'' then update_poll w apiKey n reply
            else (Inr reply, [])) = (x, s1)"
    by (cases "(if job_status reply = ''pending'' then update_poll w apiKey n reply
            else (Inr reply, []))")
  have s1: "length s1 \<le> 1 \<and> (\<forall>r \<in> set s1. Method r = ''GET'')"
    using p update_poll_sent [of w apiKey n reply x s1]
    by (auto simp add: Method_set_headers split: if_splits)
  show ?case
  proof (cases x)
    case (Inl err)
    then have "snd (update_loop w apiKey n reply lc) = s1"
      unfolding update_loop_step [OF p] by simp
    with s1 show ?thesis by simp
  next
    case (Inr reply')
    show ?thesis
    proof (cases "job_status reply' = ''done''")
      case True
      with Inr have "snd (update_loop w apiKey n reply lc) = s1"
        unfolding update_loop_step [OF p] by simp
      with s1 show ?thesis by simp
    next
      case False
      with Inr nz have "snd (update_loop w apiKey n reply lc)
          = s1 @ snd (update_loop w apiKey (n + length s1) reply' (lc - 1))"
        unfolding update_loop_step [OF p] by (simp add: split_beta)
      with s1 Suc.IH [OF countdown [OF nz Suc.prems], of "n + length s1" reply']
      show ?thesis by auto
    qed
  qed
qed

lemma transport_accepts_NewRequest:
  "transport_accepts w url \<Longrightarrow>
     NewRequest w method url body =
       Some \<lparr> Method = method, URL = url, Authorization = [], ContentType = [],
              Accept = [], Payload = body \<rparr>"
  by (cases "url_Parse w url") (simp_all add: transport_accepts_def NewRequest_def)

lemma transport_accepts_Do:
  "transport_accepts w (URL req) \<Longrightarrow> client_Do w n (set_headers apiKey req) = provider w n (set_headers apiKey req)"
  by (simp add: client_Do_def set_headers_def)

lemma update_poll_pending:
  assumes pend: "\<forall>n req. \<exists>code body. provider w n req = Response code (Some body)
                   \<and> (code = 200 \<or> code = 202)
                   \<and> (\<forall>r. \<exists>r'. json_Unmarshal w body r = Some r' \<and> job_status r' = ''pending''
                                \<and> transport_accepts w (job_link r' ''queue-job''))"
      and link: "transport_accepts w (job_link reply ''queue-job'')"
  shows "\<exists>r' rq. update_poll w apiKey n reply = (Inr r', [rq]) \<and> job_status r' = ''pending''
                \<and> transport_accepts w (job_link r' ''queue-job'')"
proof -
  let ?req = "\<lparr> Method = ''GET'', URL = job_link reply ''queue-job'', Authorization = [],
                 ContentType = [], Accept = [], Payload = None \<rparr>"
  from pend have "\<exists>code body. provider w n (set_headers apiKey ?req) = Response code (Some body)
                   \<and> (code = 200 \<or> code = 202)
                   \<and> (\<forall>r. \<exists>r'. json_Unmarshal w body r = Some r' \<and> job_status r' = ''pending''
                                \<and> transport_accepts w (job_link r' ''queue-job''))"
    by (elim allE)
  then obtain code body where
    resp: "provider w n (set_headers apiKey ?req) = Response code (Some body)" and
    code: "code = 200 \<or> code = 202" and
    dec: "\<forall>r. \<exists>r'. json_Unmarshal w body r = Some r' \<and> job_status r' = ''pending''
                                \<and> transport_accepts w (job_link r' ''queue-job'')"
    by (elim exE conjE)
  from dec have "\<exists>r'. json_Unmarshal w body reply = Some r' \<and> job_status r' = ''pending''
                                \<and> transport_accepts w (job_link r' ''queue-job'')"
    by (elim allE)
  then obtain r' where r': "json_Unmarshal w body reply = Some r'"
    "job_status r' = ''pending''" "transport_accepts w (job_link r' ''queue-job'')"
    by (elim exE conjE)
  have nr: "NewRequest w ''GET'' (job_link reply ''queue-job'') None = Some ?req"
    using link by (rule transport_accepts_NewRequest)
  have "transport_accepts w (URL ?req)" using link by simp
  then have "client_Do w n (set_headers apiKey ?req) = Response code (Some body)"
    using resp by (simp only: transport_accepts_Do)
  then have dr: "doRequest w apiKey n ?req True = (code, body, None)"
    using code by (simp add: doRequest_def)
  have "update_poll w apiKey n reply = (Inr r', [set_headers apiKey ?req])"
    unfolding update_poll_def nr using code by (auto simp add: dr r'(1))
  with r' show ?thesis by blast
qed

lemma update_loop_pending:
  assumes pend: "\<forall>n req. \<exists>code body. provider w n req = Response code (Some body)
                   \<and> (code = 200 \<or> code = 202)
                   \<and> (\<forall>r. \<exists>r'. json_Unmarshal w body r = Some r' \<and> job_status r' = ''pending''
                                \<and> transport_accepts w (job_link r' ''queue-job''))"
  shows "unat (lc - 1) = k \<Longrightarrow> job_status reply = ''pending''
    \<Longrightarrow> transport_accepts w (job_link reply ''queue-job'')
    \<Longrightarrow> fst (update_loop w apiKey n reply lc) = ([], Some (JobTimedOut ''pending''))
      \<and> length (snd (update_loop w apiKey n reply lc)) = Suc k"
proof (induction k arbitrary: lc n reply)
  case 0
  then have z: "lc - 1 = 0" by (simp add: unat_eq_0)
  from update_poll_pending [OF pend "0.prems"(3), of apiKey n] obtain r' rq where
    p: "update_poll w apiKey n reply = (Inr r', [rq])" and r': "job_status r' = ''pending''" by blast
  with "0.prems"(2) have "(if job_status reply = ''pending'' then update_poll w apiKey n reply
            else (Inr reply, [])) = (Inr r', [rq])" by simp
  from update_loop_step [OF this, of lc] z r' show ?case by simp
next
  case (Suc k)
  then have nz: "lc - 1 \<noteq> 0" by auto
  from update_poll_pending [OF pend Suc.prems(3), of apiKey n] obtain r' rq where
    p: "update_poll w apiKey n reply = (Inr r', [rq])" and r': "job_status r' = ''pending''"
    and l': "transport_accepts w (job_link r' ''queue-job'')" by blast
  with Suc.prems(2) have "(if job_status reply = ''pending'' then update_poll w apiKey n reply
            else (Inr reply, [])) = (Inr r', [rq])" by simp
  from update_loop_step [OF this, of lc] nz r'
    Suc.IH [OF countdown [OF nz Suc.prems(1)] r' l', of "n + length [rq]"]
  show ?case by (simp add: split_beta)
qed

lemma five: "unat ((5 :: 64 word) - 1) = 4"
  by simp

lemma UpdateTxtRecord_bound:
  "length (snd (UpdateTxtRecord w apiKey domain name val ttl)) \<le> 6
   \<and> (\<forall>r \<in> set (tl (snd (UpdateTxtRecord w apiKey domain name val ttl))). Method r = ''GET'')"
proof -
  obtain res sent where run: "UpdateTxtRecord w apiKey domain name val ttl = (res, sent)"
    by (cases "UpdateTxtRecord w apiKey domain name val ttl")
  from UpdateTxtRecord_sent [OF run] consider
      "length sent \<le> 1"
    | req reply sent' where "update_loop w apiKey 1 reply 5 = (res, sent')"
        "sent = set_headers apiKey req # sent'"
    by fastforce
  then show ?thesis
  proof cases
    case 1
    then have "length sent \<le> 6 \<and> tl sent = []" by (cases sent) auto
    with run show ?thesis by simp
  next
    case 2
    from update_loop_bound [OF five, of w apiKey 1 reply] 2
    have "length (tl sent) \<le> 5 \<and> (\<forall>r \<in> set (tl sent). Method r = ''GET'')" by simp
    with run 2 show ?thesis by simp
  qed
qed

lemma UpdateTxtRecord_pending:
  assumes post: "transport_accepts w variomediaLiveDnsBaseUrl"
      and pend: "\<forall>n req. \<exists>code body. provider w n req = Response code (Some body)
                   \<and> (code = 200 \<or> code = 202)
                   \<and> (\<forall>r. \<exists>r'. json_Unmarshal w body r = Some r' \<and> job_status r' = ''pending''
                                \<and> transport_accepts w (job_link r' ''queue-job''))"
  shows "fst (UpdateTxtRecord w apiKey domain name val ttl) = ([], Some (JobTimedOut ''pending''))
       \<and> length (snd (UpdateTxtRecord w apiKey domain name val ttl)) = 6"
proof -
  let ?req = "\<lparr> Method = ''POST'', URL = variomediaLiveDnsBaseUrl, Authorization = [],
                 ContentType = [], Accept = [],
                 Payload = Some \<lparr> RequestType = ''dns-record'',
                   RequestAttr = \<lparr> RecordType = ''TXT'', Name = name, Domain = domain,
                                   Data = val, Ttl = ttl \<rparr> \<rparr> \<rparr>"
  from pend have "\<exists>code body. provider w 0 (set_headers apiKey ?req) = Response code (Some body)
                   \<and> (code = 200 \<or> code = 202)
                   \<and> (\<forall>r. \<exists>r'. json_Unmarshal w body r = Some r' \<and> job_status r' = ''pending''
                                \<and> transport_accepts w (job_link r' ''queue-job''))"
    by (elim allE)
  then obtain code body where
    resp: "provider w 0 (set_headers apiKey ?req) = Response code (Some body)" and
    code: "code = 200 \<or> code = 202" and
    dec: "\<forall>r. \<exists>r'. json_Unmarshal w body r = Some r' \<and> job_status r' = ''pending''
                                \<and> transport_accepts w (job_link r' ''queue-job'')"
    by (elim exE conjE)
  from dec have "\<exists>r'. json_Unmarshal w body zero_reply = Some r' \<and> job_status r' = ''pending''
                                \<and> transport_accepts w (job_link r' ''queue-job'')"
    by (elim allE)
  then obtain r' where r': "json_Unmarshal w body zero_reply = Some r'"
    "job_status r' = ''pending''" "transport_accepts w (job_link r' ''queue-job'')"
    by (elim exE conjE)
  have nr: "NewRequest w ''POST'' variomediaLiveDnsBaseUrl
              (Some \<lparr> RequestType = ''dns-record'',
                   RequestAttr = \<lparr> RecordType = ''TXT'', Name = name, Domain = domain,
                                   Data = val, Ttl = ttl \<rparr> \<rparr>) = Some ?req"
    using post by (rule transport_accepts_NewRequest)
  have "transport_accepts w (URL ?req)" using post by simp
  then have "client_Do w 0 (set_headers apiKey ?req) = Response code (Some body)"
    using resp by (simp only: transport_accepts_Do)
  then have dr: "doRequest w apiKey 0 ?req True = (code, body, None)"
    using code by (simp add: doRequest_def)
  have "UpdateTxtRecord w apiKey domain name val ttl =
          (case update_loop w apiKey 1 r' 5 of
             (res, sent) \<Rightarrow> (res, set_headers apiKey ?req # sent))"
    unfolding UpdateTxtRecord_def Let_def nr using code by (auto simp add: dr r'(1))
  with update_loop_pending [OF pend five r'(2) r'(3), of apiKey 1]
  show ?thesis by (simp add: split_beta)
qed

text \<open>
  Claim C4, as the source has it. For every world, \<open>UpdateTxtRecord\<close> returns after at
  most six requests: the POST and at most five requests after it, each of them a GET.
  When the transport accepts the URL of the POST, and every exchange is answered with
  the status code 200 or 202 and a body that \<open>json.Unmarshal\<close> decodes to a job with
  the status \<open>pending\<close> and a job link that the transport accepts, the operation sends
  all six requests and returns the time-out error that carries the status \<open>pending\<close>.
\<close>

theorem poll_bounded:
  "length (snd (UpdateTxtRecord w apiKey domain name val ttl)) \<le> 6
   \<and> (\<forall>r \<in> set (tl (snd (UpdateTxtRecord w apiKey domain name val ttl))). Method r = ''GET'')
   \<and> (transport_accepts w variomediaLiveDnsBaseUrl
        \<and> (\<forall>n req. \<exists>code body. provider w n req = Response code (Some body)
                   \<and> (code = 200 \<or> code = 202)
                   \<and> (\<forall>r. \<exists>r'. json_Unmarshal w body r = Some r' \<and> job_status r' = ''pending''
                                \<and> transport_accepts w (job_link r' ''queue-job'')))
      \<longrightarrow> fst (UpdateTxtRecord w apiKey domain name val ttl) = ([], Some (JobTimedOut ''pending''))
        \<and> length (snd (UpdateTxtRecord w apiKey domain name val ttl)) = 6)"
  using UpdateTxtRecord_bound [of w apiKey domain name val ttl]
    UpdateTxtRecord_pending [of w apiKey domain name val ttl]
  by blast

lemma sample_pending:
  "transport_accepts (sample_world one_domain always_pending) variomediaLiveDnsBaseUrl
   \<and> (\<forall>n req. \<exists>code body. provider (sample_world one_domain always_pending) n req = Response code (Some body)
                   \<and> (code = 200 \<or> code = 202)
                   \<and> (\<forall>r. \<exists>r'. json_Unmarshal (sample_world one_domain always_pending) body r = Some r'
                                \<and> job_status r' = ''pending''
                                \<and> transport_accepts (sample_world one_domain always_pending)
                                     (job_link r' ''queue-job'')))"
  by (simp add: eval_defs always_pending_def)

theorem poll_bounded_witness:
  "transport_accepts (sample_world one_domain always_pending) variomediaLiveDnsBaseUrl
   \<and> (\<forall>n req. \<exists>code body. provider (sample_world one_domain always_pending) n req = Response code (Some body)
                   \<and> (code = 200 \<or> code = 202)
                   \<and> (\<forall>r. \<exists>r'. json_Unmarshal (sample_world one_domain always_pending) body r = Some r'
                                \<and> job_status r' = ''pending''
                                \<and> transport_accepts (sample_world one_domain always_pending)
                                     (job_link r' ''queue-job'')))
   \<and> fst (UpdateTxtRecord (sample_world one_domain always_pending) ''yourApiKeyGoesHere''
            ''example.com'' ''_acme-challenge.foo'' ''challenge-key'' 300)
       = ([], Some (JobTimedOut ''pending''))
   \<and> length (snd (UpdateTxtRecord (sample_world one_domain always_pending) ''yourApiKeyGoesHere''
            ''example.com'' ''_acme-challenge.foo'' ''challenge-key'' 300)) = 6"
  using poll_bounded [of "sample_world one_domain always_pending" "''yourApiKeyGoesHere''"
          "''example.com''" "''_acme-challenge.foo''" "''challenge-key''" 300]
        sample_pending
  by blast

text \<open>
  The claim as the specification words it fails at two runs in which every response
  reports a pending job. When the descriptor has no job link, the GET request for the
  empty URL is refused by the transport after the POST, and the operation returns the
  error of \<open>client.Do\<close>. When the responses have the status code 201, the body is not
  read, and the operation returns the error of \<open>json.Unmarshal\<close> after the POST.
\<close>

theorem poll_pending_counterexample:
  "map_option job_status (decode_without_links ''pending'' zero_reply) = Some ''pending''
   \<and> UpdateTxtRecord ((sample_world one_domain always_pending) \<lparr> decode_reply := decode_without_links \<rparr>)
        ''yourApiKeyGoesHere'' ''example.com'' ''_acme-challenge.foo'' ''challenge-key'' 300
     = (([], Some DoError),
        [\<lparr>Method = ''POST'', URL = ''https://api.variomedia.de/dns-records'',
           Authorization = ''token yourApiKeyGoesHere'',
           ContentType = ''application/vnd.api+json'',
           Accept = ''application/vnd.variomedia.v1+json'',
           Payload = Some \<lparr>RequestType = ''dns-record'',
                       RequestAttr = \<lparr>RecordType = ''TXT'', Name = ''_acme-challenge.foo'',
                                       Domain = ''example.com'', Data = ''challenge-key'',
                                       Ttl = 300\<rparr>\<rparr>\<rparr>,
         \<lparr>Method = ''GET'', URL = [], Authorization = ''token yourApiKeyGoesHere'',
           ContentType = ''application/vnd.api+json'',
           Accept = ''application/vnd.variomedia.v1+json'', Payload = None\<rparr>])
   \<and> fst (UpdateTxtRecord (sample_world one_domain always_created)
        ''yourApiKeyGoesHere'' ''example.com'' ''_acme-challenge.foo'' ''challenge-key'' 300)
     = ([], Some UnmarshalError)
   \<and> length (snd (UpdateTxtRecord (sample_world one_domain always_created)
        ''yourApiKeyGoesHere'' ''example.com'' ''_acme-challenge.foo'' ''challenge-key'' 300)) = 1"
  by (simp add: eval_defs update_loop.simps always_pending_def always_created_def
        decode_without_links_def)

section \<open>The status code 404 in DeleteTxtRecord\<close>

text \<open>
  Claim C1, at two runs of the source. A DELETE request that is answered with the status
  code 404 makes \<open>DeleteTxtRecord\<close> return the error of line 290; and after a DELETE
  request answered with 202 and a pending job, a fetch of the job status answered with 404
  passes the check of line 332 and fails in \<open>json.Unmarshal\<close>, since \<open>doRequest\<close> has
  not read a body. Neither run returns nil.
\<close>

theorem delete_not_found_fails:
  "DeleteTxtRecord (sample_world one_domain (\<lambda>n req. Response 404 None)) ''yourApiKeyGoesHere''
       ''https://api.variomedia.de/dns-records/1'' 300
     = (Some DeleteFailed,
        [\<lparr>Method = ''DELETE'', URL = ''https://api.variomedia.de/dns-records/1'',
           Authorization = ''token yourApiKeyGoesHere'',
           ContentType = ''application/vnd.api+json'',
           Accept = ''application/vnd.variomedia.v1+json'', Payload = None\<rparr>])
   \<and> DeleteTxtRecord (sample_world one_domain
          (\<lambda>n req. if n = 0 then Response 202 (Some ''pending'') else Response 404 None))
        ''yourApiKeyGoesHere'' ''https://api.variomedia.de/dns-records/1'' 300
     = (Some UnmarshalError,
        [\<lparr>Method = ''DELETE'', URL = ''https://api.variomedia.de/dns-records/1'',
           Authorization = ''token yourApiKeyGoesHere'',
           ContentType = ''application/vnd.api+json'',
           Accept = ''application/vnd.variomedia.v1+json'', Payload = None\<rparr>,
         \<lparr>Method = ''GET'', URL = ''https://api.variomedia.de/queue-jobs/1'',
           Authorization = ''token yourApiKeyGoesHere'',
           ContentType = ''application/vnd.api+json'',
           Accept = ''application/vnd.variomedia.v1+json'', Payload = None\<rparr>])"
  by (simp add: eval_defs delete_loop.simps)

section \<open>The status code 201 in UpdateTxtRecord\<close>

text \<open>
  Claim C3, at three runs of the source. A POST request answered with the status code 201
  and the descriptor of a finished job passes the check of line 181, and
  \<open>UpdateTxtRecord\<close> returns the error of \<open>json.Unmarshal\<close>, since \<open>doRequest\<close> reads
  the body for 200 and 202 only; the same answer with the status code 200 or 202 gives
  the URL of the record.
\<close>

theorem created_status_fails:
  "fst (UpdateTxtRecord (sample_world one_domain (\<lambda>n req. Response 201 (Some ''done'')))
         ''yourApiKeyGoesHere'' ''example.com'' ''_acme-challenge.foo'' ''challenge-key'' 300)
     = ([], Some UnmarshalError)
   \<and> fst (UpdateTxtRecord (sample_world one_domain (\<lambda>n req. Response 200 (Some ''done'')))
         ''yourApiKeyGoesHere'' ''example.com'' ''_acme-challenge.foo'' ''challenge-key'' 300)
     = (''https://api.variomedia.de/dns-records/1'', None)
   \<and> fst (UpdateTxtRecord (sample_world one_domain (\<lambda>n req. Response 202 (Some ''done'')))
         ''yourApiKeyGoesHere'' ''example.com'' ''_acme-challenge.foo'' ''challenge-key'' 300)
     = (''https://api.variomedia.de/dns-records/1'', None)"
  by (simp add: eval_defs update_loop.simps)

section \<open>CleanUp without a cached URL\<close>

lemma DeleteTxtRecord_empty_url:
  "DeleteTxtRecord w apiKey [] ttl =
     (Some DoError,
      [set_headers apiKey \<lparr> Method = ''DELETE'', URL = [], Authorization = [],
                              ContentType = [], Accept = [], Payload = None \<rparr>])"
  by (simp add: DeleteTxtRecord_def NewRequest_def url_Parse_def transport_accepts_def
        doRequest_def client_Do_def set_headers_def)

lemma cache_url_after_delete: "cache_url (cache_delete c domain entry key) domain entry key = []"
proof (cases "index_map (index_map c domain) entry")
  case NilMap
  then show ?thesis by (simp add: cache_delete_def cache_url_def index_string_def map_lookup_def)
next
  case (GoMap kvs)
  then obtain ys where m1: "index_map c domain = GoMap ys"
    by (cases "index_map c domain") (auto simp add: index_map_def map_lookup_def)
  then obtain xs where c: "c = GoMap xs"
    by (cases c) (auto simp add: index_map_def map_lookup_def)
  have "cache_delete c domain entry key =
          GoMap (AList.update domain (GoMap (AList.update entry (GoMap (AList.delete key kvs)) ys)) xs)"
    using GoMap m1 c by (simp add: cache_delete_def assign2_def)
  then show ?thesis
    by (simp add: cache_url_def index_map_def index_string_def map_lookup_def
          update_conv' delete_conv')
qed

text \<open>
  Claim C2, as the source has it. When the credentials resolve and the challenge maps to
  a configured domain: if the cache gives the empty URL for the domain, host label and
  key, \<open>CleanUp\<close> sends the DELETE request for the empty URL, which fails in
  \<open>client.Do\<close>, returns the error for a failed deletion and leaves the cache as it is;
  and after a \<open>CleanUp\<close> that has returned nil, a second \<open>CleanUp\<close> for the same
  challenge on the cache that the first has left does the same.
\<close>

theorem CleanUp_cache_miss:
  assumes "loadApiKeys w (Config ch) (ResourceNamespace ch) = (cfg, None)"
      and "getDomainAndEntryAndApiKey ch cfg = (entry, domain, apiKey, None)"
  shows "(cache_url c domain entry (Key ch) = [] \<longrightarrow>
            CleanUp w ch c =
              (Returned (Some (DeleteError DoError)), c,
               [set_headers apiKey \<lparr> Method = ''DELETE'', URL = [], Authorization = [],
                                       ContentType = [], Accept = [], Payload = None \<rparr>]))
       \<and> (fst (CleanUp w ch c) = Returned None \<longrightarrow>
            CleanUp w ch (fst (snd (CleanUp w ch c))) =
              (Returned (Some (DeleteError DoError)), fst (snd (CleanUp w ch c)),
               [set_headers apiKey \<lparr> Method = ''DELETE'', URL = [], Authorization = [],
                                       ContentType = [], Accept = [], Payload = None \<rparr>]))"
proof -
  have miss: "CleanUp w ch c' =
              (Returned (Some (DeleteError DoError)), c',
               [set_headers apiKey \<lparr> Method = ''DELETE'', URL = [], Authorization = [],
                                       ContentType = [], Accept = [], Payload = None \<rparr>])"
    if "cache_url c' domain entry (Key ch) = []" for c'
    using assms that DeleteTxtRecord_empty_url [of w apiKey variomediaMinTtl]
    by (simp add: CleanUp_def)
  have after: "fst (snd (CleanUp w ch c)) = cache_delete c domain entry (Key ch)"
    if "fst (CleanUp w ch c) = Returned None"
    using that assms by (simp add: CleanUp_def split: prod.splits option.splits)
  show ?thesis
  proof (intro conjI impI)
    assume "cache_url c domain entry (Key ch) = []"
    then show "CleanUp w ch c =
              (Returned (Some (DeleteError DoError)), c,
               [set_headers apiKey \<lparr> Method = ''DELETE'', URL = [], Authorization = [],
                                       ContentType = [], Accept = [], Payload = None \<rparr>])"
      by (rule miss)
  next
    assume "fst (CleanUp w ch c) = Returned None"
    from after [OF this] have "cache_url (fst (snd (CleanUp w ch c))) domain entry (Key ch) = []"
      by (simp add: cache_url_after_delete)
    then show "CleanUp w ch (fst (snd (CleanUp w ch c))) =
              (Returned (Some (DeleteError DoError)), fst (snd (CleanUp w ch c)),
               [set_headers apiKey \<lparr> Method = ''DELETE'', URL = [], Authorization = [],
                                       ContentType = [], Accept = [], Payload = None \<rparr>])"
      by (rule miss)
  qed
qed

text \<open>
  The claim as the specification words it fails: with an empty cache \<open>CleanUp\<close> returns
  an error, and so does the second of two calls of which the first has deleted the
  record.
\<close>

theorem CleanUp_twice_counterexample:
  "CleanUp (sample_world one_domain always_done) sample_challenge (GoMap [])
     = (Returned (Some (DeleteError DoError)), GoMap [],
        [\<lparr>Method = ''DELETE'', URL = [], Authorization = ''token yourApiKeyGoesHere'',
           ContentType = ''application/vnd.api+json'',
           Accept = ''application/vnd.variomedia.v1+json'', Payload = None\<rparr>])
   \<and> fst (CleanUp (sample_world one_domain always_done) sample_challenge sample_cache)
       = Returned None
   \<and> fst (CleanUp (sample_world one_domain always_done) sample_challenge
            (fst (snd (CleanUp (sample_world one_domain always_done) sample_challenge sample_cache))))
       = Returned (Some (DeleteError DoError))"
  by (simp add: solver_defs eval_defs delete_loop.simps always_done_def sample_cache_def)

theorem CleanUp_cache_miss_witness:
  "loadApiKeys (sample_world one_domain always_done) (Config sample_challenge)
       (ResourceNamespace sample_challenge)
     = (GoMap [(''example.com'', ''yourApiKeyGoesHere'')], None)
   \<and> getDomainAndEntryAndApiKey sample_challenge (GoMap [(''example.com'', ''yourApiKeyGoesHere'')])
     = (''_acme-challenge.foo'', ''example.com'', ''yourApiKeyGoesHere'', None)
   \<and> cache_url (GoMap []) ''example.com'' ''_acme-challenge.foo'' (Key sample_challenge) = []
   \<and> CleanUp (sample_world one_domain always_done) sample_challenge (GoMap [])
     = (Returned (Some (DeleteError DoError)), GoMap [],
        [\<lparr>Method = ''DELETE'', URL = [], Authorization = ''token yourApiKeyGoesHere'',
           ContentType = ''application/vnd.api+json'',
           Accept = ''application/vnd.variomedia.v1+json'', Payload = None\<rparr>])
   \<and> fst (CleanUp (sample_world one_domain always_done) sample_challenge sample_cache)
       = Returned None
   \<and> CleanUp (sample_world one_domain always_done) sample_challenge
        (fst (snd (CleanUp (sample_world one_domain always_done) sample_challenge sample_cache)))
     = (Returned (Some (DeleteError DoError)),
        fst (snd (CleanUp (sample_world one_domain always_done) sample_challenge sample_cache)),
        [\<lparr>Method = ''DELETE'', URL = [], Authorization = ''token yourApiKeyGoesHere'',
           ContentType = ''application/vnd.api+json'',
           Accept = ''application/vnd.variomedia.v1+json'', Payload = None\<rparr>])"
proof -
  have first: "fst (CleanUp (sample_world one_domain always_done) sample_challenge sample_cache)
       = Returned None"
    by (simp add: solver_defs eval_defs delete_loop.simps always_done_def sample_cache_def)
  have miss: "cache_url (GoMap []) ''example.com'' ''_acme-challenge.foo'' (Key sample_challenge) = []"
    by (simp add: solver_defs eval_defs)
  from CleanUp_cache_miss [of "sample_world one_domain always_done" sample_challenge
         "GoMap [(''example.com'', ''yourApiKeyGoesHere'')]" "''_acme-challenge.foo''"
         "''example.com''" "''yourApiKeyGoesHere''" "GoMap []"]
       CleanUp_cache_miss [of "sample_world one_domain always_done" sample_challenge
         "GoMap [(''example.com'', ''yourApiKeyGoesHere'')]" "''_acme-challenge.foo''"
         "''example.com''" "''yourApiKeyGoesHere''" sample_cache]
       first miss sample_keys [of always_done] sample_mapping
  show ?thesis by (simp add: set_headers_def)
qed

end
